theory Spec2Isabelle
  imports Complex_Main
begin

section \<open>Parametrized ranges (geometry/parameters.ts)\<close>

text \<open>
  JavaScript numbers are modelled as exact reals: every statement below is about the
  arithmetic the source writes down, without IEEE rounding.  A step index and a step
  count are JavaScript numbers too, so they are reals here; \<open>Math.floor\<close> returns an
  integer.
\<close>

text \<open>
  \<open>class ConstStepRange\<close>: the fields \<open>_start\<close>, \<open>_end\<close>, the read-only
  \<open>_stepSize\<close> computed once by the constructor, and \<open>stepCount\<close>.
\<close>

record ConstStepRange =
  r_start :: real
  r_end :: real
  r_stepSize :: real
  stepCount :: real

text \<open>The constructor: \<open>this._stepSize = (end - start) / stepCount\<close>.\<close>

definition ConstStepRange :: "real \<Rightarrow> real \<Rightarrow> real \<Rightarrow> ConstStepRange" where
  "ConstStepRange start end' n =
     \<lparr>r_start = start, r_end = end', r_stepSize = (end' - start) / n, stepCount = n\<rparr>"

definition radRangeFromStartEndDegStepCount :: "real \<Rightarrow> real \<Rightarrow> real \<Rightarrow> ConstStepRange" where
  "radRangeFromStartEndDegStepCount start_deg end_deg step_count =
     ConstStepRange (start_deg * pi / 180) (end_deg * pi / 180) step_count"

definition range_size :: "ConstStepRange \<Rightarrow> real" where
  "range_size r = r_end r - r_start r"

definition stepSize :: "ConstStepRange \<Rightarrow> real \<Rightarrow> real" where
  "stepSize r stepIdx = r_stepSize r"

definition atStep :: "ConstStepRange \<Rightarrow> real \<Rightarrow> real" where
  "atStep r stepIdx = r_start r + r_stepSize r * stepIdx"

definition range_includes :: "ConstStepRange \<Rightarrow> real \<Rightarrow> bool" where
  "range_includes r v \<longleftrightarrow> v \<ge> r_start r \<and> v \<le> r_end r"

definition lastIncludedStepIdx :: "ConstStepRange \<Rightarrow> real \<Rightarrow> int" where
  "lastIncludedStepIdx r v = \<lfloor>(v - r_start r) / r_stepSize r\<rfloor>"

text \<open>\<open>clone\<close> and \<open>cloneAsMutable\<close> both run the constructor on the current bounds.\<close>

definition cloneAsMutable :: "ConstStepRange \<Rightarrow> ConstStepRange" where
  "cloneAsMutable r = ConstStepRange (r_start r) (r_end r) (stepCount r)"

text \<open>
  \<open>reverse\<close> swaps \<open>_start\<close> and \<open>_end\<close> in place; \<open>_stepSize\<close> is read-only and
  is not touched.
\<close>

definition reverse :: "ConstStepRange \<Rightarrow> ConstStepRange" where
  "reverse r = r\<lparr>r_start := r_end r, r_end := r_start r\<rparr>"

text \<open>\<open>MutableConstStepRange.setStartEnd\<close> overwrites the two bounds only.\<close>

definition setStartEnd :: "ConstStepRange \<Rightarrow> real \<Rightarrow> real \<Rightarrow> ConstStepRange" where
  "setStartEnd r start end' = r\<lparr>r_start := start, r_end := end'\<rparr>"


subsection \<open>The transverse circle's range (archytas_model: TransverseCircleAngleRange)\<close>

text \<open>
  \<open>Math.sin\<close>, \<open>Math.acos\<close> and \<open>Math.asin\<close> are the real functions
  \<open>sin\<close>, \<open>arccos\<close> and \<open>arcsin\<close>.
\<close>

definition fromAngleOapCompliment_rad :: "real \<Rightarrow> real" where
  "fromAngleOapCompliment_rad angleOapCompliment_rad =
     arccos (1 - 2 * sin (pi - angleOapCompliment_rad))"

definition toAngleOapCompliment_rad :: "real \<Rightarrow> real" where
  "toAngleOapCompliment_rad transverseCircleAngle_rad =
     pi - arcsin ((1 - cos transverseCircleAngle_rad) / 2)"

text \<open>
  \<open>class TransverseCircleAngleRange extends ConstStepRange\<close>: the base range runs
  over the angle OAP complement, the overridden methods answer in transverse-circle
  angles.
\<close>

record TransverseCircleAngleRange = ConstStepRange +
  transformedStart :: real
  transformedEnd :: real
  stepCountMultiplier :: real

definition TransverseCircleAngleRange :: "ConstStepRange \<Rightarrow> real \<Rightarrow> TransverseCircleAngleRange" where
  "TransverseCircleAngleRange angleOapCompliment_rad multiplier =
     ConstStepRange.extend
       (ConstStepRange (r_start angleOapCompliment_rad) (r_end angleOapCompliment_rad)
          (stepCount angleOapCompliment_rad * multiplier))
       \<lparr>transformedStart = fromAngleOapCompliment_rad (r_start angleOapCompliment_rad),
        transformedEnd = fromAngleOapCompliment_rad (r_end angleOapCompliment_rad),
        stepCountMultiplier = multiplier\<rparr>"

definition transverse_atStep :: "TransverseCircleAngleRange \<Rightarrow> real \<Rightarrow> real" where
  "transverse_atStep r stepIdx =
     fromAngleOapCompliment_rad (atStep (ConstStepRange.truncate r) stepIdx)"

definition transverse_stepSize :: "TransverseCircleAngleRange \<Rightarrow> real \<Rightarrow> real" where
  "transverse_stepSize r stepIdx = transverse_atStep r (stepIdx + 1) - transverse_atStep r stepIdx"

definition transverse_includes :: "TransverseCircleAngleRange \<Rightarrow> real \<Rightarrow> bool" where
  "transverse_includes r v \<longleftrightarrow> v \<ge> transformedStart r \<and> v \<le> transformedEnd r"

definition transverse_lastIncludedStepIdx :: "TransverseCircleAngleRange \<Rightarrow> real \<Rightarrow> int" where
  "transverse_lastIncludedStepIdx r v =
     lastIncludedStepIdx (ConstStepRange.truncate r) (toAngleOapCompliment_rad v)"

section \<open>Binary64 arithmetic of the ranges\<close>

text \<open>
  A JavaScript number is an IEEE 754 binary64 value, and every arithmetic operator
  rounds its exact result to the nearest such value, ties to the even significand.
  \<open>f64\<close> is that rounding on the reals: \<open>f64_exponent x\<close> is the exponent of the
  binade of \<open>x\<close> (not below \<open>- 1022\<close>, where the subnormal numbers begin), a unit in
  the last place is \<open>2\<close> to that exponent minus 52, and \<open>x\<close> is rounded to a
  multiple of it.  A result of magnitude \<open>2 ^ 1024\<close> or more is \<open>Infinity\<close> in
  JavaScript; \<open>is_f64\<close> holds of the finite binary64 values only.
\<close>

definition f64_exponent :: "real \<Rightarrow> int" where
  "f64_exponent x = max \<lfloor>log 2 \<bar>x\<bar>\<rfloor> (- 1022)"

definition f64_ulp :: "real \<Rightarrow> real" where
  "f64_ulp x = 2 powr real_of_int (f64_exponent x - 52)"

definition roundTiesToEven :: "real \<Rightarrow> int" where
  "roundTiesToEven y =
     (if y - real_of_int \<lfloor>y\<rfloor> < 1 / 2 then \<lfloor>y\<rfloor>
      else if 1 / 2 < y - real_of_int \<lfloor>y\<rfloor> then \<lfloor>y\<rfloor> + 1
      else if even \<lfloor>y\<rfloor> then \<lfloor>y\<rfloor>
      else \<lfloor>y\<rfloor> + 1)"

definition f64 :: "real \<Rightarrow> real" where
  "f64 x = (if x = 0 then 0 else real_of_int (roundTiesToEven (x / f64_ulp x)) * f64_ulp x)"

definition is_f64 :: "real \<Rightarrow> bool" where
  "is_f64 x \<longleftrightarrow> f64 x = x \<and> \<bar>x\<bar> < 2 ^ 1024"

text \<open>\<open>Math.PI\<close> is the binary64 value nearest to \<open>pi\<close>.\<close>

definition Math_PI :: real where
  "Math_PI = 884279719003555 / 2 ^ 48"

text \<open>
  The methods of \<open>ConstStepRange\<close> with the rounding of every operator written out.
  The constructor computes \<open>(end - start) / stepCount\<close>, \<open>atStep\<close> computes
  \<open>start + _stepSize * stepIdx\<close>, \<open>lastIncludedStepIdx\<close> computes
  \<open>Math.floor((value - start) / _stepSize)\<close>, and the factory computes
  \<open>start_deg * Math.PI / 180.0\<close>, the product first.  The arguments are binary64
  values.  The definitions of the previous section are the same methods in exact
  arithmetic.
\<close>

definition ConstStepRange_f64 :: "real \<Rightarrow> real \<Rightarrow> real \<Rightarrow> ConstStepRange" where
  "ConstStepRange_f64 start end' n =
     \<lparr>r_start = start, r_end = end', r_stepSize = f64 (f64 (end' - start) / n), stepCount = n\<rparr>"

definition radRangeFromStartEndDegStepCount_f64 :: "real \<Rightarrow> real \<Rightarrow> real \<Rightarrow> ConstStepRange" where
  "radRangeFromStartEndDegStepCount_f64 start_deg end_deg step_count =
     ConstStepRange_f64 (f64 (f64 (start_deg * Math_PI) / 180)) (f64 (f64 (end_deg * Math_PI) / 180))
       step_count"

definition atStep_f64 :: "ConstStepRange \<Rightarrow> real \<Rightarrow> real" where
  "atStep_f64 r stepIdx = f64 (r_start r + f64 (r_stepSize r * stepIdx))"

definition lastIncludedStepIdx_f64 :: "ConstStepRange \<Rightarrow> real \<Rightarrow> int" where
  "lastIncludedStepIdx_f64 r v = \<lfloor>f64 (f64 (v - r_start r) / r_stepSize r)\<rfloor>"

section \<open>Vectors (geometry/vectors_and_matrices.ts)\<close>

text \<open>
  \<open>ColumnVector3\<close> and \<open>ColumnVector2\<close> wrap the three.js vectors.  Every method
  of the source mutates its receiver and returns it; the functions below return the new
  value instead, so a chain \<open>a.copy(b).add(c)\<close> reads \<open>add3 b c\<close>.  The loops over
  \<open>rowCount\<close> and \<open>columnCount\<close> are written out for the fixed dimension.
\<close>

datatype ColumnVector3 = ColumnVector3 (x3: real) (y3: real) (z3: real)

datatype ColumnVector2 = ColumnVector2 (x2: real) (y2: real)

definition add3 :: "ColumnVector3 \<Rightarrow> ColumnVector3 \<Rightarrow> ColumnVector3" where
  "add3 a b = ColumnVector3 (x3 a + x3 b) (y3 a + y3 b) (z3 a + z3 b)"

definition subtract3 :: "ColumnVector3 \<Rightarrow> ColumnVector3 \<Rightarrow> ColumnVector3" where
  "subtract3 a b = ColumnVector3 (x3 a - x3 b) (y3 a - y3 b) (z3 a - z3 b)"

definition addScaled3 :: "ColumnVector3 \<Rightarrow> ColumnVector3 \<Rightarrow> real \<Rightarrow> ColumnVector3" where
  "addScaled3 a b s = ColumnVector3 (x3 a + s * x3 b) (y3 a + s * y3 b) (z3 a + s * z3 b)"

definition multiplyScalar3 :: "ColumnVector3 \<Rightarrow> real \<Rightarrow> ColumnVector3" where
  "multiplyScalar3 a s = ColumnVector3 (s * x3 a) (s * y3 a) (s * z3 a)"

definition vectorDot3 :: "ColumnVector3 \<Rightarrow> ColumnVector3 \<Rightarrow> real" where
  "vectorDot3 a b = x3 a * x3 b + y3 a * y3 b + z3 a * z3 b"

text \<open>
  \<open>vectorCross\<close>: component \<open>i\<close> is
  \<open>a[(i+1) % 3] * b[(i+2) % 3] - a[(i+2) % 3] * b[(i+1) % 3]\<close>.
\<close>

definition vectorCross3 :: "ColumnVector3 \<Rightarrow> ColumnVector3 \<Rightarrow> ColumnVector3" where
  "vectorCross3 a b = ColumnVector3
     (y3 a * z3 b - z3 a * y3 b)
     (z3 a * x3 b - x3 a * z3 b)
     (x3 a * y3 b - y3 a * x3 b)"

definition distanceTo3 :: "ColumnVector3 \<Rightarrow> ColumnVector3 \<Rightarrow> real" where
  "distanceTo3 a b =
     sqrt ((x3 a - x3 b) * (x3 a - x3 b) + (y3 a - y3 b) * (y3 a - y3 b)
           + (z3 a - z3 b) * (z3 a - z3 b))"

text \<open>
  \<open>normalizeColumnVectors\<close> on a column vector divides it by its length.  The source
  leaves the zero vector to the caller (``you can expect undefined values''); here the
  division is the one of the reals.
\<close>

definition normalizeColumnVectors3 :: "ColumnVector3 \<Rightarrow> ColumnVector3" where
  "normalizeColumnVectors3 a =
     (let vecLength = sqrt (x3 a * x3 a + y3 a * y3 a + z3 a * z3 a)
      in ColumnVector3 (x3 a / vecLength) (y3 a / vecLength) (z3 a / vecLength))"

definition add2 :: "ColumnVector2 \<Rightarrow> ColumnVector2 \<Rightarrow> ColumnVector2" where
  "add2 a b = ColumnVector2 (x2 a + x2 b) (y2 a + y2 b)"

definition subtract2 :: "ColumnVector2 \<Rightarrow> ColumnVector2 \<Rightarrow> ColumnVector2" where
  "subtract2 a b = ColumnVector2 (x2 a - x2 b) (y2 a - y2 b)"

definition addScaled2 :: "ColumnVector2 \<Rightarrow> ColumnVector2 \<Rightarrow> real \<Rightarrow> ColumnVector2" where
  "addScaled2 a b s = ColumnVector2 (x2 a + s * x2 b) (y2 a + s * y2 b)"

definition multiplyScalar2 :: "ColumnVector2 \<Rightarrow> real \<Rightarrow> ColumnVector2" where
  "multiplyScalar2 a s = ColumnVector2 (s * x2 a) (s * y2 a)"

definition vectorDot2 :: "ColumnVector2 \<Rightarrow> ColumnVector2 \<Rightarrow> real" where
  "vectorDot2 a b = x2 a * x2 b + y2 a * y2 b"

definition distanceTo2 :: "ColumnVector2 \<Rightarrow> ColumnVector2 \<Rightarrow> real" where
  "distanceTo2 a b =
     sqrt ((x2 a - x2 b) * (x2 a - x2 b) + (y2 a - y2 b) * (y2 a - y2 b))"

text \<open>
  \<open>Math.atan2(y, x)\<close> on the reals.  The two zeroes of IEEE arithmetic are one real
  number, so \<open>atan2 0 x\<close> is \<open>pi\<close> for negative \<open>x\<close> and \<open>atan2 0 0\<close> is 0.
\<close>

definition atan2 :: "real \<Rightarrow> real \<Rightarrow> real" where
  "atan2 y x =
     (if 0 < x then arctan (y / x)
      else if x < 0 then (if 0 \<le> y then arctan (y / x) + pi else arctan (y / x) - pi)
      else if 0 < y then pi / 2
      else if y < 0 then - (pi / 2)
      else 0)"

subsection \<open>Plane directions (geometry/parameters.ts)\<close>

record PlaneDirections3 =
  xHat :: ColumnVector3
  yHat :: ColumnVector3

definition zHat :: "PlaneDirections3 \<Rightarrow> ColumnVector3" where
  "zHat p = vectorCross3 (xHat p) (yHat p)"

definition unitVecAtAngle :: "PlaneDirections3 \<Rightarrow> real \<Rightarrow> ColumnVector3" where
  "unitVecAtAngle p angle_rad =
     addScaled3 (multiplyScalar3 (xHat p) (cos angle_rad)) (yHat p) (sin angle_rad)"

section \<open>The tessellation engine (archytas_model/tesselation_base.ts, sliced_tesselation.ts)\<close>

subsection \<open>Coordinate buffers\<close>

text \<open>
  A \<open>Float32Array\<close> is a list of fixed length.  An element is \<open>Some x\<close> for a number
  and \<open>None\<close> for \<open>NaN\<close>, which is what the array holds after \<open>undefined\<close> was
  stored in it; the rounding to single precision is not modelled.  An index is a
  JavaScript number: a write at an index that is negative, fractional or past the end
  is dropped, a read there gives \<open>undefined\<close>.
\<close>

type_synonym f32 = "real option"

definition validIndex :: "'a list \<Rightarrow> real \<Rightarrow> bool" where
  "validIndex xs i \<longleftrightarrow> 0 \<le> i \<and> real_of_int \<lfloor>i\<rfloor> = i \<and> nat \<lfloor>i\<rfloor> < length xs"

definition array_set :: "'a list \<Rightarrow> real \<Rightarrow> 'a \<Rightarrow> 'a list" where
  "array_set xs i v = (if validIndex xs i then xs[nat \<lfloor>i\<rfloor> := v] else xs)"

definition array_get :: "f32 list \<Rightarrow> real \<Rightarrow> f32" where
  "array_get xs i = (if validIndex xs i then xs ! nat \<lfloor>i\<rfloor> else None)"

definition COORDS_PER_VERTEX :: real where
  "COORDS_PER_VERTEX = 3"

text \<open>
  \<open>new Float32Array(n)\<close>: \<open>n\<close> zeroes.  The counts are non-negative integers in
  every configuration the model builds.
\<close>

definition newCoordsArray :: "real \<Rightarrow> f32 list" where
  "newCoordsArray n = replicate (nat \<lfloor>n\<rfloor>) (Some 0)"

text \<open>
  \<open>SurfaceVertexCoords\<close> owns the two buffers and their two
  \<open>THREE.BufferAttribute\<close>s; setting \<open>needsUpdate\<close> on an attribute increments its
  version.
\<close>

record CoordsArrays =
  vertexCoords :: "f32 list"
  normalCoords :: "f32 list"

text \<open>
  \<open>VertexAndNormal\<close> as the writer sees it: three vertex and three normal
  components, each possibly \<open>undefined\<close>.
\<close>

type_synonym coords3 = "f32 \<times> f32 \<times> f32"

definition coordsOf :: "ColumnVector3 \<Rightarrow> coords3" where
  "coordsOf v = (Some (x3 v), Some (y3 v), Some (z3 v))"

text \<open>\<open>CoordsArrayVertexAndNormalWriter.writeVertex\<close>.\<close>

definition writeVertex :: "CoordsArrays \<Rightarrow> real \<Rightarrow> coords3 \<Rightarrow> coords3 \<Rightarrow> CoordsArrays" where
  "writeVertex w vertexIdx position normal =
     (let coordsIdx = vertexIdx * COORDS_PER_VERTEX;
          (p0, p1, p2) = position;
          (n0, n1, n2) = normal
      in \<lparr>vertexCoords =
             array_set (array_set (array_set (vertexCoords w) coordsIdx p0)
                          (coordsIdx + 1) p1) (coordsIdx + 2) p2,
           normalCoords =
             array_set (array_set (array_set (normalCoords w) coordsIdx n0)
                          (coordsIdx + 1) n1) (coordsIdx + 2) n2\<rparr>)"

subsection \<open>Slice calculators\<close>

text \<open>
  \<open>interface SliceVertexCalculator\<close>.  \<open>calculateVertices\<close> takes the slice
  parameter, the buffers and the index of the first vertex to write, and returns the
  buffers.  \<open>sharedVertices\<close> is \<open>VertexCalculator.calculateSharedVertices\<close> of the
  calculator that owns the slice (it writes nothing unless a solid overrides it).
\<close>

record SliceVertexCalculator =
  sliceParameterRange :: ConstStepRange
  startVertexIndex :: "real \<Rightarrow> real"
  maxVertexCount :: real
  calculateVertices :: "real \<Rightarrow> CoordsArrays \<Rightarrow> real \<Rightarrow> CoordsArrays"
  calculateSharedVertices :: "CoordsArrays \<Rightarrow> real \<Rightarrow> CoordsArrays"

text \<open>\<open>VertexCalculator.sliceCount\<close> and \<open>VertexCalculator.vertexCount\<close>.\<close>

definition sliceCount :: "SliceVertexCalculator \<Rightarrow> real" where
  "sliceCount slice = stepCount (sliceParameterRange slice) + 1"

definition vertexCount :: "SliceVertexCalculator \<Rightarrow> real" where
  "vertexCount slice = startVertexIndex slice (sliceCount slice + 1)"

text \<open>
  The loop of \<open>VertexCalculator.calculateVertices\<close>:
  \<open>for (sliceIdx = 0; sliceIdx < sliceCount; ++sliceIdx)\<close>.
\<close>

function calculateSlices :: "SliceVertexCalculator \<Rightarrow> real \<Rightarrow> CoordsArrays \<Rightarrow> CoordsArrays" where
  "calculateSlices slice sliceIdx w =
     (if sliceIdx < sliceCount slice
      then calculateSlices slice (sliceIdx + 1)
             (calculateVertices slice (atStep (sliceParameterRange slice) sliceIdx) w
                (startVertexIndex slice sliceIdx))
      else w)"
  by pat_completeness auto
termination
  by (relation "measure (\<lambda>(slice, sliceIdx, w). nat \<lceil>sliceCount slice - sliceIdx\<rceil>)")
     (auto, linarith)

declare calculateSlices.simps [simp del]

definition VertexCalculator_calculateVertices :: "SliceVertexCalculator \<Rightarrow> CoordsArrays \<Rightarrow> CoordsArrays" where
  "VertexCalculator_calculateVertices slice w =
     calculateSlices slice 0 (calculateSharedVertices slice w 0)"

text \<open>The constructor of \<open>SurfaceVertexCoords\<close>: allocate, then calculate.\<close>

definition SurfaceVertexCoords :: "SliceVertexCalculator \<Rightarrow> CoordsArrays" where
  "SurfaceVertexCoords slice =
     VertexCalculator_calculateVertices slice
       \<lparr>vertexCoords = newCoordsArray (vertexCount slice * COORDS_PER_VERTEX),
        normalCoords = newCoordsArray (vertexCount slice * COORDS_PER_VERTEX)\<rparr>"

subsection \<open>The connecting slice\<close>

text \<open>
  \<open>ConnectingSliceVertexCalculator.copyVerticesFromBase\<close>: the loop
  \<open>while (srcI < srcEndIdx)\<close> copies one vertex and one normal per round from the
  buffers of the whole solid.
\<close>

function copyLoop :: "CoordsArrays \<Rightarrow> real \<Rightarrow> real \<Rightarrow> real \<Rightarrow> CoordsArrays \<Rightarrow> CoordsArrays" where
  "copyLoop src srcI srcEndIdx destI w =
     (if srcI < srcEndIdx
      then copyLoop src (srcI + 3) srcEndIdx (destI + 1)
             (writeVertex w destI
                (array_get (vertexCoords src) srcI, array_get (vertexCoords src) (srcI + 1),
                 array_get (vertexCoords src) (srcI + 2))
                (array_get (normalCoords src) srcI, array_get (normalCoords src) (srcI + 1),
                 array_get (normalCoords src) (srcI + 2)))
      else w)"
  by pat_completeness auto
termination
  by (relation "measure (\<lambda>(src, srcI, srcEndIdx, destI, w). nat \<lceil>srcEndIdx - srcI\<rceil>)")
     (auto, linarith)

declare copyLoop.simps [simp del]

definition copyVerticesFromBase :: "CoordsArrays \<Rightarrow> real \<Rightarrow> real \<Rightarrow> CoordsArrays \<Rightarrow> real \<Rightarrow> CoordsArrays" where
  "copyVerticesFromBase src srcStartVertexIdx srcEndVertexIdx w destStartVertexIdx =
     copyLoop src (srcStartVertexIdx * COORDS_PER_VERTEX) (srcEndVertexIdx * COORDS_PER_VERTEX)
       destStartVertexIdx w"

text \<open>
  \<open>ConnectingSliceVertexCalculator\<close>: it knows the coordinates of the whole solid
  (\<open>vertexCoords\<close>, here \<open>baseCoords\<close>) and their slice calculator.  The cone
  overrides \<open>sharedVertexCount\<close>, \<open>vertexCount\<close>, \<open>calculateVertices\<close> and
  \<open>updateVertices\<close>, so these four are fields.
\<close>

record ConnectingSliceVertexCalculator =
  baseSlice :: SliceVertexCalculator
  baseCoords :: CoordsArrays
  sharedVertexCount :: real
  connectingVertexCount :: real
  connectingCalculateVertices :: "CoordsArrays \<Rightarrow> CoordsArrays"
  updateVertices :: "real \<Rightarrow> real \<Rightarrow> CoordsArrays \<Rightarrow> real \<Rightarrow> CoordsArrays"

definition connectingSliceCount :: "ConnectingSliceVertexCalculator \<Rightarrow> real" where
  "connectingSliceCount c = 1"

text \<open>The methods of the generic class, before any override.\<close>

definition generic_sharedVertexCount :: "SliceVertexCalculator \<Rightarrow> real" where
  "generic_sharedVertexCount slice = startVertexIndex slice 0"

definition generic_vertexCount :: "SliceVertexCalculator \<Rightarrow> real" where
  "generic_vertexCount slice = generic_sharedVertexCount slice + 2 * maxVertexCount slice"

definition generic_calculateSharedVertices ::
    "SliceVertexCalculator \<Rightarrow> CoordsArrays \<Rightarrow> CoordsArrays \<Rightarrow> real \<Rightarrow> CoordsArrays" where
  "generic_calculateSharedVertices slice base w coordStartIdx =
     copyVerticesFromBase base 0 (generic_sharedVertexCount slice) w coordStartIdx"

definition generic_updateVertices ::
    "SliceVertexCalculator \<Rightarrow> CoordsArrays \<Rightarrow> real \<Rightarrow> real \<Rightarrow> CoordsArrays \<Rightarrow> real \<Rightarrow> CoordsArrays" where
  "generic_updateVertices slice base sliceIdx sliceParameter w vertexStartIdx =
     calculateVertices slice sliceParameter
       (copyVerticesFromBase base (startVertexIndex slice sliceIdx)
          (startVertexIndex slice (sliceIdx + 1)) w vertexStartIdx)
       (vertexStartIdx + maxVertexCount slice)"

definition ConnectingSliceVertexCalculator ::
    "SliceVertexCalculator \<Rightarrow> CoordsArrays \<Rightarrow> ConnectingSliceVertexCalculator" where
  "ConnectingSliceVertexCalculator slice base =
     \<lparr>baseSlice = slice, baseCoords = base,
      sharedVertexCount = generic_sharedVertexCount slice,
      connectingVertexCount = generic_vertexCount slice,
      connectingCalculateVertices = (\<lambda>w. generic_calculateSharedVertices slice base w 0),
      updateVertices = generic_updateVertices slice base\<rparr>"

text \<open>
  \<open>ConnectingSliceVertexCoords\<close>: the buffers of the connecting slice, the versions
  of their two buffer attributes, and \<open>_sliceParameter\<close>, which starts as \<open>NaN\<close>
  (\<open>None\<close>) and therefore differs from every first value.
\<close>

record ConnectingSliceVertexCoords =
  vertexCalculator :: ConnectingSliceVertexCalculator
  coords :: CoordsArrays
  positionVersion :: nat
  normalVersion :: nat
  sliceParameter :: "real option"

definition ConnectingSliceVertexCoords :: "ConnectingSliceVertexCalculator \<Rightarrow> ConnectingSliceVertexCoords" where
  "ConnectingSliceVertexCoords c =
     \<lparr>vertexCalculator = c,
      coords = connectingCalculateVertices c
        \<lparr>vertexCoords = newCoordsArray (connectingVertexCount c * COORDS_PER_VERTEX),
         normalCoords = newCoordsArray (connectingVertexCount c * COORDS_PER_VERTEX)\<rparr>,
      positionVersion = 0, normalVersion = 0, sliceParameter = None\<rparr>"

text \<open>The setter \<open>set sliceParameter(value)\<close>.\<close>

definition sliceParameter_set :: "ConnectingSliceVertexCoords \<Rightarrow> real \<Rightarrow> ConnectingSliceVertexCoords" where
  "sliceParameter_set cs v =
     (if Some v \<noteq> sliceParameter cs
      then (let c = vertexCalculator cs;
                sliceIdx = lastIncludedStepIdx (sliceParameterRange (baseSlice c)) v
            in cs\<lparr>coords := updateVertices c (real_of_int sliceIdx) v (coords cs) (sharedVertexCount c),
                  normalVersion := Suc (normalVersion cs),
                  positionVersion := Suc (positionVersion cs),
                  sliceParameter := Some v\<rparr>)
      else cs)"

subsection \<open>Indexed geometries and their draw range\<close>

text \<open>
  \<open>IndexedGeometry\<close>, as far as a solid's setters reach it: the index calculator's
  \<open>vertexIdxCount\<close> (its \<open>startVertexIndex(i)\<close> is \<open>vertexIdxCount * i\<close> in all
  six calculators), the number of calculated slices, \<open>_startSliceIndex\<close>,
  \<open>_endSliceIndex\<close> (\<open>NaN\<close> at first) and the draw range of the three.js geometry,
  whose count is \<open>Infinity\<close> (\<open>None\<close>) until \<open>setDrawRange\<close> is called.  The index
  buffer is filled by the constructor and never written again.  A setter returns the
  new object together with what it printed with \<open>console.error\<close>, one entry per
  message, holding the numbers of the message.
\<close>

datatype log_entry =
    SliceIndexOutOfBounds real real
  | AngleOutOfBounds real real real

record IndexedGeometry =
  vertexIdxCount :: real
  calculatedSliceCount :: real
  startSliceIndex :: real
  endSliceIndex :: "real option"
  drawRangeStart :: real
  drawRangeCount :: "real option"

definition indexStartVertexIndex :: "IndexedGeometry \<Rightarrow> real \<Rightarrow> real" where
  "indexStartVertexIndex g sliceIdx = vertexIdxCount g * sliceIdx"

definition IndexedGeometry :: "real \<Rightarrow> real \<Rightarrow> IndexedGeometry" where
  "IndexedGeometry idxCount slices =
     \<lparr>vertexIdxCount = idxCount, calculatedSliceCount = slices, startSliceIndex = 0,
      endSliceIndex = None, drawRangeStart = 0, drawRangeCount = None\<rparr>"

text \<open>The setter \<open>set drawEndSliceIndex(sliceIdx)\<close>; the \<open>else\<close> branch logs.\<close>

definition drawEndSliceIndex_set :: "IndexedGeometry \<Rightarrow> real \<Rightarrow> IndexedGeometry \<times> log_entry list" where
  "drawEndSliceIndex_set g sliceIdx =
     (if sliceIdx \<ge> 0 \<and> sliceIdx \<le> calculatedSliceCount g
      then (g\<lparr>drawRangeStart := indexStartVertexIndex g (startSliceIndex g),
              drawRangeCount := Some (indexStartVertexIndex g sliceIdx),
              endSliceIndex := Some sliceIdx\<rparr>, [])
      else (g, [SliceIndexOutOfBounds sliceIdx (calculatedSliceCount g)]))"

section \<open>The solids of the construction (archytas_model)\<close>

subsection \<open>Lines between label anchors (tesselation_base.ts: Line)\<close>

record Line =
  lineCoords :: "f32 list"
  lineVersion :: nat

definition updateVertex :: "Line \<Rightarrow> real \<Rightarrow> ColumnVector3 \<Rightarrow> Line" where
  "updateVertex l vertexIdx newVertex =
     (let coordIdx = vertexIdx * COORDS_PER_VERTEX
      in l\<lparr>lineCoords :=
             array_set (array_set (array_set (lineCoords l) coordIdx (Some (x3 newVertex)))
                          (coordIdx + 1) (Some (y3 newVertex)))
               (coordIdx + 2) (Some (z3 newVertex))\<rparr>)"

definition commitUpdates :: "Line \<Rightarrow> Line" where
  "commitUpdates l = l\<lparr>lineVersion := Suc (lineVersion l)\<rparr>"

definition Line :: "ColumnVector3 \<Rightarrow> ColumnVector3 \<Rightarrow> Line" where
  "Line a b =
     \<lparr>lineCoords = [Some (x3 a), Some (y3 a), Some (z3 a), Some (x3 b), Some (y3 b), Some (z3 b)],
      lineVersion = 0\<rparr>"

subsection \<open>The cylinder\<close>

record CylinderConfiguration =
  cyl_origin :: ColumnVector3
  cyl_radius :: real
  cyl_transversePlane :: PlaneDirections3
  angle_rad :: ConstStepRange
  cyl_height :: real

text \<open>\<open>GeneratrixVertexCalculator.calculateVertices\<close> of the cylinder.\<close>

definition cylinder_calculateVertices ::
    "CylinderConfiguration \<Rightarrow> real \<Rightarrow> CoordsArrays \<Rightarrow> real \<Rightarrow> CoordsArrays" where
  "cylinder_calculateVertices config secantAngle_rad w vertexStartIdx =
     (let centralAngle_rad = pi - 2 * secantAngle_rad;
          xHat' = unitVecAtAngle (cyl_transversePlane config) centralAngle_rad;
          hVec = multiplyScalar3 (zHat (cyl_transversePlane config)) (cyl_height config);
          bottom = addScaled3 (cyl_origin config) xHat' (cyl_radius config);
          w1 = writeVertex w vertexStartIdx (coordsOf bottom) (coordsOf xHat')
      in writeVertex w1 (vertexStartIdx + 1) (coordsOf (add3 bottom hVec)) (coordsOf xHat'))"

definition cylinderSlice :: "CylinderConfiguration \<Rightarrow> SliceVertexCalculator" where
  "cylinderSlice config =
     \<lparr>sliceParameterRange = angle_rad config,
      startVertexIndex = (\<lambda>sliceIdx. 2 * sliceIdx),
      maxVertexCount = 2,
      calculateVertices = cylinder_calculateVertices config,
      calculateSharedVertices = (\<lambda>w vertexStartIdx. w)\<rparr>"

record ArchytasCylinder =
  cyl_config :: CylinderConfiguration
  cyl_coords :: CoordsArrays
  cyl_surface :: IndexedGeometry
  cyl_wireframe :: IndexedGeometry
  cyl_connectingSliceCoords :: ConnectingSliceVertexCoords
  cyl_connectingSliceSurface :: IndexedGeometry
  cyl_connectingSliceWireframe :: IndexedGeometry

text \<open>
  The constructor.  The surface has \<open>2 * (2 - 1)\<close> triangles of three indices per
  slice, the wireframe \<open>2 - 1\<close> segments of two.
\<close>

definition ArchytasCylinder :: "CylinderConfiguration \<Rightarrow> ArchytasCylinder" where
  "ArchytasCylinder config =
     (let slice = cylinderSlice config;
          base = SurfaceVertexCoords slice;
          connecting = ConnectingSliceVertexCalculator slice base
      in \<lparr>cyl_config = config,
           cyl_coords = base,
           cyl_surface = IndexedGeometry (2 * (2 - 1) * 3) (sliceCount slice),
           cyl_wireframe = IndexedGeometry ((2 - 1) * 2) (sliceCount slice),
           cyl_connectingSliceCoords = ConnectingSliceVertexCoords connecting,
           cyl_connectingSliceSurface =
             IndexedGeometry (2 * (2 - 1) * 3) (connectingSliceCount connecting),
           cyl_connectingSliceWireframe =
             IndexedGeometry ((2 - 1) * 2) (connectingSliceCount connecting)\<rparr>)"

text \<open>The setter \<open>set secantAngle_rad(value)\<close>.\<close>

definition secantAngle_rad_set :: "ArchytasCylinder \<Rightarrow> real \<Rightarrow> ArchytasCylinder \<times> log_entry list" where
  "secantAngle_rad_set c v =
     (if range_includes (angle_rad (cyl_config c)) v
      then (let stepIdx = real_of_int (lastIncludedStepIdx (angle_rad (cyl_config c)) v);
                (surface, log1) = drawEndSliceIndex_set (cyl_surface c) stepIdx;
                (wireframe, log2) = drawEndSliceIndex_set (cyl_wireframe c)
                                      (if stepIdx > 0 then stepIdx + 1 else stepIdx)
            in (c\<lparr>cyl_surface := surface,
                  cyl_wireframe := wireframe,
                  cyl_connectingSliceCoords := sliceParameter_set (cyl_connectingSliceCoords c) v\<rparr>,
                log1 @ log2))
      else (c, [AngleOutOfBounds v (r_start (angle_rad (cyl_config c)))
                  (r_end (angle_rad (cyl_config c)))]))"

subsection \<open>The torus\<close>

record TorusConfiguration =
  tor_origin :: ColumnVector3
  tor_radius :: real
  toroidalPlane :: PlaneDirections3
  toroidalAngle_rad :: ConstStepRange
  poloidalAngle_rad :: ConstStepRange

definition TorusConfiguration ::
    "ColumnVector3 \<Rightarrow> real \<Rightarrow> PlaneDirections3 \<Rightarrow> ConstStepRange \<Rightarrow> real \<Rightarrow> TorusConfiguration" where
  "TorusConfiguration origin radius plane toroidal poloidalAngleStepCount =
     \<lparr>tor_origin = origin, tor_radius = radius, toroidalPlane = plane,
      toroidalAngle_rad = toroidal,
      poloidalAngle_rad = ConstStepRange 0 pi poloidalAngleStepCount\<rparr>"

text \<open>
  \<open>TubeCircleVertexCalculator.calculateVertices\<close>: the loop
  \<open>for (i = 0; i < stepCount; ++i)\<close> over the poloidal steps of one tube circle.
\<close>

function tubeCircleLoop ::
    "TorusConfiguration \<Rightarrow> ColumnVector3 \<Rightarrow> real \<Rightarrow> real \<Rightarrow> CoordsArrays \<Rightarrow> CoordsArrays" where
  "tubeCircleLoop config xHat' i vertexIdx w =
     (if i < stepCount (poloidalAngle_rad config)
      then (let poloidalAngle = atStep (poloidalAngle_rad config) i;
                normal = addScaled3 (addScaled3 (ColumnVector3 0 0 0) xHat' (cos poloidalAngle))
                           (zHat (toroidalPlane config)) (sin poloidalAngle);
                vertex = add3 (multiplyScalar3 (add3 normal xHat') (tor_radius config))
                           (tor_origin config)
            in tubeCircleLoop config xHat' (i + 1) (vertexIdx + 1)
                 (writeVertex w vertexIdx (coordsOf vertex) (coordsOf normal)))
      else w)"
  by pat_completeness auto
termination
  by (relation "measure (\<lambda>(config, xHat', i, vertexIdx, w).
                  nat \<lceil>stepCount (poloidalAngle_rad config) - i\<rceil>)")
     (auto, linarith)

declare tubeCircleLoop.simps [simp del]

definition torus_calculateVertices ::
    "TorusConfiguration \<Rightarrow> real \<Rightarrow> CoordsArrays \<Rightarrow> real \<Rightarrow> CoordsArrays" where
  "torus_calculateVertices config toroidalAngle w vertexStartIdx =
     tubeCircleLoop config (unitVecAtAngle (toroidalPlane config) toroidalAngle) 0
       vertexStartIdx w"

text \<open>
  \<open>TorusVertexCalculator.calculateSharedVertices\<close> writes the centre of symmetry.
  The slice parameter range of the tube circle calculator is the poloidal range.
\<close>

definition torusSlice :: "TorusConfiguration \<Rightarrow> SliceVertexCalculator" where
  "torusSlice config =
     \<lparr>sliceParameterRange = poloidalAngle_rad config,
      startVertexIndex = (\<lambda>toroidalStepIdx. 1 + stepCount (poloidalAngle_rad config) * toroidalStepIdx),
      maxVertexCount = stepCount (poloidalAngle_rad config),
      calculateVertices = torus_calculateVertices config,
      calculateSharedVertices = (\<lambda>w vertexStartIdx.
         writeVertex w vertexStartIdx (coordsOf (tor_origin config))
           (coordsOf (zHat (toroidalPlane config))))\<rparr>"

record ArchytasTorus =
  tor_config :: TorusConfiguration
  tor_coords :: CoordsArrays
  tor_surface :: IndexedGeometry
  tor_wireframe :: IndexedGeometry
  tor_connectingSliceCoords :: ConnectingSliceVertexCoords
  tor_connectingSliceSurface :: IndexedGeometry
  tor_connectingSliceWireframe :: IndexedGeometry

definition ArchytasTorus :: "TorusConfiguration \<Rightarrow> ArchytasTorus" where
  "ArchytasTorus config =
     (let slice = torusSlice config;
          base = SurfaceVertexCoords slice;
          connecting = ConnectingSliceVertexCalculator slice base;
          uniqueVertexCount = stepCount (poloidalAngle_rad config)
      in \<lparr>tor_config = config,
           tor_coords = base,
           tor_surface = IndexedGeometry ((1 + 2 * (uniqueVertexCount - 1)) * 3) (sliceCount slice),
           tor_wireframe = IndexedGeometry (uniqueVertexCount * 2) (sliceCount slice),
           tor_connectingSliceCoords = ConnectingSliceVertexCoords connecting,
           tor_connectingSliceSurface =
             IndexedGeometry ((1 + 2 * (uniqueVertexCount - 1)) * 3) (connectingSliceCount connecting),
           tor_connectingSliceWireframe =
             IndexedGeometry (uniqueVertexCount * 2) (connectingSliceCount connecting)\<rparr>)"

text \<open>The setter \<open>set toroidalAngle_rad(value)\<close>.\<close>

definition toroidalAngle_rad_set :: "ArchytasTorus \<Rightarrow> real \<Rightarrow> ArchytasTorus \<times> log_entry list" where
  "toroidalAngle_rad_set t v =
     (if range_includes (toroidalAngle_rad (tor_config t)) v
      then (let stepIdx = real_of_int (lastIncludedStepIdx (toroidalAngle_rad (tor_config t)) v);
                (surface, log1) = drawEndSliceIndex_set (tor_surface t) stepIdx;
                (wireframe, log2) = drawEndSliceIndex_set (tor_wireframe t)
                                      (if stepIdx > 0 then stepIdx + 1 else stepIdx)
            in (t\<lparr>tor_surface := surface,
                  tor_wireframe := wireframe,
                  tor_connectingSliceCoords := sliceParameter_set (tor_connectingSliceCoords t) v\<rparr>,
                log1 @ log2))
      else (t, [AngleOutOfBounds v (r_start (toroidalAngle_rad (tor_config t)))
                  (r_end (toroidalAngle_rad (tor_config t)))]))"

subsection \<open>The cone\<close>

record ConeConfiguration =
  cone_origin :: ColumnVector3
  cone_transversePlane :: PlaneDirections3
  invertZ :: bool
  apexAngle_rad :: real
  cone_height :: real
  cylinderRadius :: real
  oapAngleCompliment_rad :: ConstStepRange

definition ConeConfiguration ::
    "ColumnVector3 \<Rightarrow> PlaneDirections3 \<Rightarrow> bool \<Rightarrow> real \<Rightarrow> real \<Rightarrow> real \<Rightarrow> real \<Rightarrow> ConeConfiguration" where
  "ConeConfiguration origin plane invZ apexAngle height radius aopAngleStepCount =
     \<lparr>cone_origin = origin, cone_transversePlane = plane, invertZ = invZ,
      apexAngle_rad = apexAngle, cone_height = height, cylinderRadius = radius,
      oapAngleCompliment_rad = radRangeFromStartEndDegStepCount 0 90 (aopAngleStepCount / 2)\<rparr>"

text \<open>The fields the cone's \<open>GeneratrixVertexCalculator\<close> computes in its constructor.\<close>

definition cone_zHat :: "ConeConfiguration \<Rightarrow> ColumnVector3" where
  "cone_zHat config =
     (if invertZ config then multiplyScalar3 (zHat (cone_transversePlane config)) (- 1)
      else zHat (cone_transversePlane config))"

definition cone_baseCenterVec :: "ConeConfiguration \<Rightarrow> ColumnVector3" where
  "cone_baseCenterVec config = multiplyScalar3 (cone_zHat config) (- cone_height config)"

definition cone_baseRadius :: "ConeConfiguration \<Rightarrow> real" where
  "cone_baseRadius config = cone_height config * tan (apexAngle_rad config / 2)"

definition centralAngleForAngleOAP_rad :: "real \<Rightarrow> real \<Rightarrow> real" where
  "centralAngleForAngleOAP_rad oapAngle_rad eps =
     (if oapAngle_rad < eps then atan2 1 (sqrt 2)
      else atan2 (sqrt (1 / cos oapAngle_rad - 1)) (sin oapAngle_rad))"

text \<open>
  \<open>calculateVertices\<close> of the cone takes a fourth, optional argument: the step size
  of the angle, by default the range's step size at the last included step.
\<close>

definition cone_calculateVertices ::
    "ConeConfiguration \<Rightarrow> real \<Rightarrow> CoordsArrays \<Rightarrow> real \<Rightarrow> real option \<Rightarrow> CoordsArrays" where
  "cone_calculateVertices config oapAngleCompliment w vertexStartIdx stepSizeArg =
     (let oapAngleComplimentStepSize_rad =
            (case stepSizeArg of
               Some s \<Rightarrow> s
             | None \<Rightarrow> stepSize (oapAngleCompliment_rad config)
                 (real_of_int (lastIncludedStepIdx (oapAngleCompliment_rad config) oapAngleCompliment)));
          oapAngle_rad = pi / 2 - oapAngleCompliment;
          centralAngle_rad =
            centralAngleForAngleOAP_rad (oapAngle_rad - oapAngleComplimentStepSize_rad / 2) (1 / 10 ^ 8);
          apexNormal =
            addScaled3
              (multiplyScalar3 (unitVecAtAngle (cone_transversePlane config) centralAngle_rad)
                 (cos centralAngle_rad))
              (cone_zHat config) (sin centralAngle_rad);
          w1 = writeVertex w vertexStartIdx (coordsOf (cone_origin config)) (coordsOf apexNormal);
          centralAngle_rad' = centralAngleForAngleOAP_rad oapAngle_rad (1 / 10 ^ 8);
          xHat' = unitVecAtAngle (cone_transversePlane config) centralAngle_rad';
          bottomNormal =
            addScaled3 (multiplyScalar3 xHat' (cos centralAngle_rad')) (cone_zHat config)
              (sin centralAngle_rad');
          bottom =
            addScaled3 (add3 (cone_origin config) (cone_baseCenterVec config)) xHat'
              (cone_baseRadius config)
      in writeVertex w1 (vertexStartIdx + 1) (coordsOf bottom) (coordsOf bottomNormal))"

definition vertexAtCentralAngleAndHeight :: "ConeConfiguration \<Rightarrow> real \<Rightarrow> real \<Rightarrow> ColumnVector3" where
  "vertexAtCentralAngleAndHeight config centralAngle_rad height =
     (let xHat' = unitVecAtAngle (cone_transversePlane config) centralAngle_rad;
          baseRadius = height * tan (apexAngle_rad config / 2)
      in addScaled3 (add3 (multiplyScalar3 xHat' baseRadius) (cone_origin config))
           (cone_zHat config) (- height))"

definition vertexOnAxisAtHeight :: "ConeConfiguration \<Rightarrow> real \<Rightarrow> ColumnVector3" where
  "vertexOnAxisAtHeight config height =
     add3 (multiplyScalar3 (cone_zHat config) (- height)) (cone_origin config)"

definition coneSlice :: "ConeConfiguration \<Rightarrow> SliceVertexCalculator" where
  "coneSlice config =
     \<lparr>sliceParameterRange = oapAngleCompliment_rad config,
      startVertexIndex = (\<lambda>sliceIdx. 2 * sliceIdx),
      maxVertexCount = 2,
      calculateVertices = (\<lambda>v w vertexStartIdx. cone_calculateVertices config v w vertexStartIdx None),
      calculateSharedVertices = (\<lambda>w vertexStartIdx. w)\<rparr>"

text \<open>
  \<open>ConeConnectingSliceVertexCalculator\<close>: no shared vertices, four vertices, nothing
  calculated by the constructor, and both generatrices recalculated on an update.
\<close>

definition cone_updateVertices ::
    "ConeConfiguration \<Rightarrow> real \<Rightarrow> real \<Rightarrow> CoordsArrays \<Rightarrow> real \<Rightarrow> CoordsArrays" where
  "cone_updateVertices config sliceIdx sliceParameter' w vertexStartIdx =
     (let parameterAtSlice = atStep (oapAngleCompliment_rad config) sliceIdx
      in cone_calculateVertices config parameterAtSlice
           (cone_calculateVertices config sliceParameter' w vertexStartIdx None)
           (vertexStartIdx + 2) (Some (sliceParameter' - parameterAtSlice)))"

definition ConeConnectingSliceVertexCalculator ::
    "ConeConfiguration \<Rightarrow> CoordsArrays \<Rightarrow> ConnectingSliceVertexCalculator" where
  "ConeConnectingSliceVertexCalculator config base =
     \<lparr>baseSlice = coneSlice config, baseCoords = base,
      sharedVertexCount = 0,
      connectingVertexCount = 4,
      connectingCalculateVertices = (\<lambda>w. w),
      updateVertices = cone_updateVertices config\<rparr>"

text \<open>
  \<open>ArchytasCone\<close>.  The label positioner belongs to the page; of
  \<open>updateLabelPositions\<close> only the number of calls is kept.
\<close>

record ArchytasCone =
  cone_config :: ConeConfiguration
  cone_coords :: CoordsArrays
  cone_surface :: IndexedGeometry
  cone_wireframe :: IndexedGeometry
  cone_connectingSliceCoords :: ConnectingSliceVertexCoords
  cone_connectingSliceSurface :: IndexedGeometry
  cone_connectingSliceWireframe :: IndexedGeometry
  ptQ :: ColumnVector3
  ptT :: ColumnVector3
  lineQt :: Line
  lineAt :: Line
  labelPositionings :: nat
  stored_oapAngleCompliment_rad :: real

definition updatePts :: "ArchytasCone \<Rightarrow> real \<Rightarrow> ArchytasCone" where
  "updatePts c oapAngleCompliment =
     (let oapAngle_rad = pi / 2 - oapAngleCompliment;
          centralAngle_rad = centralAngleForAngleOAP_rad oapAngle_rad (1 / 10 ^ 8);
          lenAq = cylinderRadius (cone_config c) * (1 + cos (2 * oapAngle_rad))
      in c\<lparr>ptQ := vertexOnAxisAtHeight (cone_config c) lenAq,
           ptT := vertexAtCentralAngleAndHeight (cone_config c) centralAngle_rad lenAq\<rparr>)"

definition updateLabelPositions :: "ArchytasCone \<Rightarrow> ArchytasCone" where
  "updateLabelPositions c = c\<lparr>labelPositionings := Suc (labelPositionings c)\<rparr>"

definition ArchytasCone :: "ConeConfiguration \<Rightarrow> ArchytasCone" where
  "ArchytasCone config =
     (let slice = coneSlice config;
          base = SurfaceVertexCoords slice;
          connecting = ConeConnectingSliceVertexCalculator config base;
          c = updatePts
                \<lparr>cone_config = config,
                 cone_coords = base,
                 cone_surface = IndexedGeometry (1 * 3) (sliceCount slice),
                 cone_wireframe = IndexedGeometry ((2 - 1) * 2) (sliceCount slice),
                 cone_connectingSliceCoords = ConnectingSliceVertexCoords connecting,
                 cone_connectingSliceSurface = IndexedGeometry (1 * 3) (connectingSliceCount connecting),
                 cone_connectingSliceWireframe =
                   IndexedGeometry ((2 - 1) * 2) (connectingSliceCount connecting),
                 ptQ = ColumnVector3 0 0 0,
                 ptT = ColumnVector3 0 0 0,
                 lineQt = Line (ColumnVector3 0 0 0) (ColumnVector3 0 0 0),
                 lineAt = Line (ColumnVector3 0 0 0) (ColumnVector3 0 0 0),
                 labelPositionings = 0,
                 stored_oapAngleCompliment_rad = pi / 4\<rparr>
                (pi / 4)
      in c\<lparr>lineQt := Line (ptQ c) (ptT c), lineAt := Line (cone_origin config) (ptT c)\<rparr>)"

text \<open>The setter \<open>set oapAngleCompliment_rad(value)\<close>.\<close>

definition oapAngleCompliment_rad_set :: "ArchytasCone \<Rightarrow> real \<Rightarrow> ArchytasCone \<times> log_entry list" where
  "oapAngleCompliment_rad_set c v =
     (if v = stored_oapAngleCompliment_rad c then (c, [])
      else if range_includes (oapAngleCompliment_rad (cone_config c)) v
      then (let stepIdx = real_of_int (lastIncludedStepIdx (oapAngleCompliment_rad (cone_config c)) v);
                (surface, log1) = drawEndSliceIndex_set (cone_surface c) stepIdx;
                (wireframe, log2) = drawEndSliceIndex_set (cone_wireframe c)
                                      (if stepIdx > 0 then stepIdx + 1 else stepIdx);
                c1 = c\<lparr>cone_surface := surface,
                       cone_wireframe := wireframe,
                       cone_connectingSliceCoords :=
                         sliceParameter_set (cone_connectingSliceCoords c) v\<rparr>;
                c2 = updatePts c1 v;
                c3 = c2\<lparr>lineQt := commitUpdates (updateVertex (updateVertex (lineQt c2) 0 (ptQ c2)) 1 (ptT c2)),
                        lineAt := commitUpdates (updateVertex (lineAt c2) 1 (ptT c2))\<rparr>
            in ((updateLabelPositions c3)\<lparr>stored_oapAngleCompliment_rad := v\<rparr>, log1 @ log2))
      else (c, [AngleOutOfBounds v (r_start (oapAngleCompliment_rad (cone_config c)))
                  (r_end (oapAngleCompliment_rad (cone_config c)))]))"

text \<open>
  A page drives a solid by calling its setter again and again; \<open>*_after\<close> is the
  solid after the constructor and a list of such calls.
\<close>

definition cylinder_after :: "CylinderConfiguration \<Rightarrow> real list \<Rightarrow> ArchytasCylinder" where
  "cylinder_after config vs = foldl (\<lambda>c v. fst (secantAngle_rad_set c v)) (ArchytasCylinder config) vs"

definition torus_after :: "TorusConfiguration \<Rightarrow> real list \<Rightarrow> ArchytasTorus" where
  "torus_after config vs = foldl (\<lambda>t v. fst (toroidalAngle_rad_set t v)) (ArchytasTorus config) vs"

definition cone_after :: "ConeConfiguration \<Rightarrow> real list \<Rightarrow> ArchytasCone" where
  "cone_after config vs = foldl (\<lambda>c v. fst (oapAngleCompliment_rad_set c v)) (ArchytasCone config) vs"

text \<open>
  Two recorded slice indices or draw counts are compared only once both have been set:
  \<open>None\<close> is the value of the constructor (\<open>NaN\<close>, \<open>Infinity\<close>).
\<close>

definition notDecreased :: "real option \<Rightarrow> real option \<Rightarrow> bool" where
  "notDecreased a b =
     (case a of None \<Rightarrow> True | Some x \<Rightarrow> (case b of None \<Rightarrow> False | Some y \<Rightarrow> x \<le> y))"

subsection \<open>The configurations of the model (ArchytasModel's constructor)\<close>

text \<open>
  \<open>ArchytasModel\<close> builds the three solids around the origin with \<open>circleR = 2\<close> and
  the angle range from 0 to 90 degrees in \<open>90 / 5\<close> steps; the defaults of the
  configuration constructors are filled in (36 poloidal steps, a cylinder height of
  1.5 radii, 18 angle steps for the cone).
\<close>

definition angleOapComplimentRange :: ConstStepRange where
  "angleOapComplimentRange = radRangeFromStartEndDegStepCount 0 90 (90 / 5)"

definition model_torusConfiguration :: TorusConfiguration where
  "model_torusConfiguration =
     TorusConfiguration (ColumnVector3 0 0 0) 2
       \<lparr>xHat = ColumnVector3 0 0 (- 1), yHat = ColumnVector3 (- 1) 0 0\<rparr>
       angleOapComplimentRange (180 / 5)"

definition model_cylinderConfiguration :: CylinderConfiguration where
  "model_cylinderConfiguration =
     \<lparr>cyl_origin = add3 (ColumnVector3 0 0 0) (ColumnVector3 2 0 0), cyl_radius = 2,
      cyl_transversePlane = \<lparr>xHat = ColumnVector3 1 0 0, yHat = ColumnVector3 0 0 (- 1)\<rparr>,
      angle_rad = angleOapComplimentRange, cyl_height = 1.5 * 2\<rparr>"

definition model_coneConfiguration :: ConeConfiguration where
  "model_coneConfiguration =
     ConeConfiguration (ColumnVector3 0 0 0)
       \<lparr>xHat = ColumnVector3 0 0 (- 1), yHat = ColumnVector3 0 1 0\<rparr> True
       (120 / 180 * pi) (2 / cos (120 / 180 * pi / 2)) 2 (90 / 5)"

text \<open>
  The wireframe of a solid is drawn one slice further than its surface:
  \<open>stepIdx > 0 ? stepIdx + 1 : stepIdx\<close>.
\<close>

definition wireframeEnd :: "real \<Rightarrow> real" where
  "wireframeEnd stepIdx = (if stepIdx > 0 then stepIdx + 1 else stepIdx)"

text \<open>
  The invariant behind the cone's draw range: once an end slice index has been set, it
  is a valid index, it does not exceed the bound \<open>k\<close>, and the draw count is the
  index buffer position of that slice.
\<close>

definition geometryUpTo :: "IndexedGeometry \<Rightarrow> real \<Rightarrow> bool" where
  "geometryUpTo g k =
     (case endSliceIndex g of
        None \<Rightarrow> drawRangeCount g = None
      | Some i \<Rightarrow> i \<le> calculatedSliceCount g \<and> i \<le> k
                  \<and> drawRangeCount g = Some (vertexIdxCount g * i))"

section \<open>Range semantics\<close>






subsection \<open>Reversing a range\<close>

lemma atStep_reverse: "atStep (reverse r) k = r_end r + r_stepSize r * k"
  by (simp add: atStep_def reverse_def)

text \<open>
  C10.  After \<open>reverse\<close> the range from 0 to 1 in one step starts at 1 and ends at 0;
  step 0 is the new start, but step 1 is 2 and not the new end, because the stored
  step size still points from the old start to the old end.
\<close>

theorem reverse_keeps_stale_stepSize:
  "r_start (reverse (ConstStepRange 0 1 1)) = 1
   \<and> r_end (reverse (ConstStepRange 0 1 1)) = 0
   \<and> atStep (reverse (ConstStepRange 0 1 1)) 0 = 1
   \<and> atStep (reverse (ConstStepRange 0 1 1)) (stepCount (reverse (ConstStepRange 0 1 1))) = 2
   \<and> atStep (reverse (ConstStepRange 0 1 1)) (stepCount (reverse (ConstStepRange 0 1 1)))
       \<noteq> r_end (reverse (ConstStepRange 0 1 1))"
  by (simp add: atStep_def reverse_def ConstStepRange_def)

subsection \<open>The transverse circle's angle conversions\<close>

lemma toAngle_fromAngle:
  assumes "0 \<le> phi" and "phi \<le> pi / 2"
  shows "toAngleOapCompliment_rad (fromAngleOapCompliment_rad phi) = pi - phi"
proof -
  have s: "0 \<le> sin phi" "sin phi \<le> 1"
    using assms sin_ge_zero [of phi] pi_ge_zero by auto
  have "cos (arccos (1 - 2 * sin phi)) = 1 - 2 * sin phi"
    using s by (intro cos_arccos) auto
  moreover have "arcsin (sin phi) = phi"
    using assms by (intro arcsin_sin) auto
  ultimately show ?thesis
    by (simp add: toAngleOapCompliment_rad_def fromAngleOapCompliment_rad_def)
qed

text \<open>
  C9.  On the angle domain of the construction, from 0 to \<open>pi / 2\<close>,
  \<open>toAngleOapCompliment_rad\<close> does not undo \<open>fromAngleOapCompliment_rad\<close>: the
  angle 0 comes back as \<open>pi\<close> and \<open>pi / 6\<close> comes back as \<open>5 * pi / 6\<close>; in the
  range the model builds (0 to 90 degrees in 18 steps, multiplier 10) the value at
  step 0 is mapped to step index 360.
\<close>

theorem toAngleOapCompliment_not_left_inverse:
  "toAngleOapCompliment_rad (fromAngleOapCompliment_rad 0) = pi
   \<and> toAngleOapCompliment_rad (fromAngleOapCompliment_rad (pi / 6)) = 5 * pi / 6
   \<and> toAngleOapCompliment_rad (fromAngleOapCompliment_rad (pi / 6)) \<noteq> pi / 6
   \<and> transverse_lastIncludedStepIdx
         (TransverseCircleAngleRange (radRangeFromStartEndDegStepCount 0 90 18) 10)
         (transverse_atStep
            (TransverseCircleAngleRange (radRangeFromStartEndDegStepCount 0 90 18) 10) 0) = 360"
proof -
  have a: "toAngleOapCompliment_rad (fromAngleOapCompliment_rad 0) = pi"
    using toAngle_fromAngle [of 0] by simp
  have b: "toAngleOapCompliment_rad (fromAngleOapCompliment_rad (pi / 6)) = 5 * pi / 6"
    using toAngle_fromAngle [of "pi / 6"] by simp
  have c: "5 * pi / 6 \<noteq> pi / 6" using pi_gt_zero by simp
  have "transverse_lastIncludedStepIdx
         (TransverseCircleAngleRange (radRangeFromStartEndDegStepCount 0 90 18) 10)
         (transverse_atStep
            (TransverseCircleAngleRange (radRangeFromStartEndDegStepCount 0 90 18) 10) 0) = 360"
    using a
    by (simp add: transverse_lastIncludedStepIdx_def transverse_atStep_def
        TransverseCircleAngleRange_def radRangeFromStartEndDegStepCount_def
        ConstStepRange.extend_def ConstStepRange.truncate_def
        ConstStepRange_def atStep_def lastIncludedStepIdx_def)
  with a b c show ?thesis by simp
qed

section \<open>The sweep setters of the solids\<close>

subsection \<open>What the setters leave alone\<close>

lemma drawEndSliceIndex_set_frame:
  "vertexIdxCount (fst (drawEndSliceIndex_set g i)) = vertexIdxCount g"
  "calculatedSliceCount (fst (drawEndSliceIndex_set g i)) = calculatedSliceCount g"
  "startSliceIndex (fst (drawEndSliceIndex_set g i)) = startSliceIndex g"
  by (simp_all add: drawEndSliceIndex_set_def)

lemma drawEndSliceIndex_set_idem:
  "fst (drawEndSliceIndex_set (fst (drawEndSliceIndex_set g i)) i) = fst (drawEndSliceIndex_set g i)"
  by (simp add: drawEndSliceIndex_set_def indexStartVertexIndex_def)

lemma sliceParameter_set_idem:
  "sliceParameter_set (sliceParameter_set cs v) v = sliceParameter_set cs v"
  by (simp add: sliceParameter_set_def Let_def)

lemma sliceParameter_set_calculator [simp]:
  "vertexCalculator (sliceParameter_set cs v) = vertexCalculator cs"
  by (simp add: sliceParameter_set_def Let_def)

lemma secantAngle_rad_set_config [simp]:
  "cyl_config (fst (secantAngle_rad_set c v)) = cyl_config c"
  by (simp add: secantAngle_rad_set_def Let_def split: prod.split)

lemma toroidalAngle_rad_set_config [simp]:
  "tor_config (fst (toroidalAngle_rad_set t v)) = tor_config t"
  by (simp add: toroidalAngle_rad_set_def Let_def split: prod.split)

lemma oapAngleCompliment_rad_set_config [simp]:
  "cone_config (fst (oapAngleCompliment_rad_set c v)) = cone_config c"
  by (simp add: oapAngleCompliment_rad_set_def Let_def updatePts_def updateLabelPositions_def
      split: prod.split)

lemma ArchytasCylinder_config [simp]: "cyl_config (ArchytasCylinder config) = config"
  by (simp add: ArchytasCylinder_def Let_def)

lemma ArchytasTorus_config [simp]: "tor_config (ArchytasTorus config) = config"
  by (simp add: ArchytasTorus_def Let_def)

lemma cylinder_after_snoc:
  "cylinder_after config (vs @ [v]) = fst (secantAngle_rad_set (cylinder_after config vs) v)"
  by (simp add: cylinder_after_def)

lemma torus_after_snoc:
  "torus_after config (vs @ [v]) = fst (toroidalAngle_rad_set (torus_after config vs) v)"
  by (simp add: torus_after_def)

lemma cone_after_snoc:
  "cone_after config (vs @ [v]) = fst (oapAngleCompliment_rad_set (cone_after config vs) v)"
  by (simp add: cone_after_def)

lemma cylinder_after_config [simp]: "cyl_config (cylinder_after config vs) = config"
  by (induction vs rule: rev_induct)
     (simp_all add: cylinder_after_snoc, simp add: cylinder_after_def ArchytasCylinder_def Let_def)

lemma torus_after_config [simp]: "tor_config (torus_after config vs) = config"
  by (induction vs rule: rev_induct)
     (simp_all add: torus_after_snoc, simp add: torus_after_def ArchytasTorus_def Let_def)

lemma cone_after_config [simp]: "cone_config (cone_after config vs) = config"
  by (induction vs rule: rev_induct)
     (simp_all add: cone_after_snoc,
      simp add: cone_after_def ArchytasCone_def Let_def updatePts_def)

subsection \<open>The stored angle of the cone stays inside its range\<close>

lemma cone_range_includes_initial:
  "range_includes (oapAngleCompliment_rad (ConeConfiguration origin plane invZ apex h r n)) (pi / 4)"
  by (simp add: ConeConfiguration_def radRangeFromStartEndDegStepCount_def ConstStepRange_def
      range_includes_def)

lemma cone_stored_in_range:
  assumes "range_includes (oapAngleCompliment_rad config) (pi / 4)"
  shows "range_includes (oapAngleCompliment_rad config)
           (stored_oapAngleCompliment_rad (cone_after config vs))"
proof (induction vs rule: rev_induct)
  case Nil
  then show ?case
    using assms by (simp add: cone_after_def ArchytasCone_def Let_def updatePts_def)
next
  case (snoc v vs)
  have cfg: "cone_config (cone_after config vs) = config" by simp
  show ?case
    using snoc cfg
    by (simp add: cone_after_snoc oapAngleCompliment_rad_set_def Let_def updatePts_def
        updateLabelPositions_def split: prod.split)
qed

text \<open>
  C3.  A sweep value outside the configured range is answered with one logged error and
  the unchanged solid; the setter returns normally (there is no exception in its model
  because the source has no \<open>throw\<close> on its paths).  For the cylinder and the torus
  this holds in every state; for the cone in every state reached from the constructor,
  where the stored angle lies inside the range.
\<close>

theorem out_of_range_sweep_is_logged_and_ignored:
  "(\<not> range_includes (angle_rad (cyl_config cyl)) v \<longrightarrow>
      secantAngle_rad_set cyl v =
        (cyl, [AngleOutOfBounds v (r_start (angle_rad (cyl_config cyl)))
                 (r_end (angle_rad (cyl_config cyl)))]))
   \<and> (\<not> range_includes (toroidalAngle_rad (tor_config tor)) v \<longrightarrow>
      toroidalAngle_rad_set tor v =
        (tor, [AngleOutOfBounds v (r_start (toroidalAngle_rad (tor_config tor)))
                 (r_end (toroidalAngle_rad (tor_config tor)))]))
   \<and> (\<not> range_includes (oapAngleCompliment_rad (ConeConfiguration origin plane invZ apex h r n)) v \<longrightarrow>
      oapAngleCompliment_rad_set
          (cone_after (ConeConfiguration origin plane invZ apex h r n) vs) v =
        (cone_after (ConeConfiguration origin plane invZ apex h r n) vs,
         [AngleOutOfBounds v
            (r_start (oapAngleCompliment_rad (ConeConfiguration origin plane invZ apex h r n)))
            (r_end (oapAngleCompliment_rad (ConeConfiguration origin plane invZ apex h r n)))]))"
proof (intro conjI impI)
  assume "\<not> range_includes (angle_rad (cyl_config cyl)) v"
  then show "secantAngle_rad_set cyl v =
        (cyl, [AngleOutOfBounds v (r_start (angle_rad (cyl_config cyl)))
                 (r_end (angle_rad (cyl_config cyl)))])"
    by (simp add: secantAngle_rad_set_def)
next
  assume "\<not> range_includes (toroidalAngle_rad (tor_config tor)) v"
  then show "toroidalAngle_rad_set tor v =
        (tor, [AngleOutOfBounds v (r_start (toroidalAngle_rad (tor_config tor)))
                 (r_end (toroidalAngle_rad (tor_config tor)))])"
    by (simp add: toroidalAngle_rad_set_def)
next
  let ?cfg = "ConeConfiguration origin plane invZ apex h r n"
  assume out: "\<not> range_includes (oapAngleCompliment_rad ?cfg) v"
  have "range_includes (oapAngleCompliment_rad ?cfg)
          (stored_oapAngleCompliment_rad (cone_after ?cfg vs))"
    by (rule cone_stored_in_range [OF cone_range_includes_initial])
  with out have "v \<noteq> stored_oapAngleCompliment_rad (cone_after ?cfg vs)" by auto
  with out show "oapAngleCompliment_rad_set (cone_after ?cfg vs) v =
        (cone_after ?cfg vs,
         [AngleOutOfBounds v (r_start (oapAngleCompliment_rad ?cfg))
            (r_end (oapAngleCompliment_rad ?cfg))])"
    by (simp add: oapAngleCompliment_rad_set_def)
qed

theorem out_of_range_sweep_is_logged_and_ignored_witness:
  "\<not> range_includes (angle_rad (cyl_config (ArchytasCylinder model_cylinderConfiguration))) (- 1)
   \<and> secantAngle_rad_set (ArchytasCylinder model_cylinderConfiguration) (- 1) =
       (ArchytasCylinder model_cylinderConfiguration, [AngleOutOfBounds (- 1) 0 (pi / 2)])
   \<and> \<not> range_includes (toroidalAngle_rad (tor_config (ArchytasTorus model_torusConfiguration))) (- 1)
   \<and> toroidalAngle_rad_set (ArchytasTorus model_torusConfiguration) (- 1) =
       (ArchytasTorus model_torusConfiguration, [AngleOutOfBounds (- 1) 0 (pi / 2)])
   \<and> \<not> range_includes (oapAngleCompliment_rad model_coneConfiguration) (- 1)
   \<and> oapAngleCompliment_rad_set (cone_after model_coneConfiguration [pi / 6]) (- 1) =
       (cone_after model_coneConfiguration [pi / 6], [AngleOutOfBounds (- 1) 0 (pi / 2)])"
proof -
  have r: "r_start angleOapComplimentRange = 0" "r_end angleOapComplimentRange = pi / 2"
    by (simp_all add: angleOapComplimentRange_def radRangeFromStartEndDegStepCount_def
        ConstStepRange_def)
  have c: "angle_rad model_cylinderConfiguration = angleOapComplimentRange"
    by (simp add: model_cylinderConfiguration_def)
  have t: "toroidalAngle_rad model_torusConfiguration = angleOapComplimentRange"
    by (simp add: model_torusConfiguration_def TorusConfiguration_def)
  have k: "r_start (oapAngleCompliment_rad model_coneConfiguration) = 0"
    "r_end (oapAngleCompliment_rad model_coneConfiguration) = pi / 2"
    by (simp_all add: model_coneConfiguration_def ConeConfiguration_def
        radRangeFromStartEndDegStepCount_def ConstStepRange_def)
  have outk: "\<not> range_includes (oapAngleCompliment_rad model_coneConfiguration) (- 1)"
    by (simp add: range_includes_def k)
  have out: "\<not> range_includes angleOapComplimentRange (- 1)"
    by (simp add: range_includes_def r)
  from out_of_range_sweep_is_logged_and_ignored
    [of "ArchytasCylinder model_cylinderConfiguration" "- 1"
        "ArchytasTorus model_torusConfiguration"
        "ColumnVector3 0 0 0" "\<lparr>xHat = ColumnVector3 0 0 (- 1), yHat = ColumnVector3 0 1 0\<rparr>"
        True "120 / 180 * pi" "2 / cos (120 / 180 * pi / 2)" 2 "90 / 5" "[pi / 6]"]
  show ?thesis
    using out outk k unfolding model_coneConfiguration_def by (simp add: c t r)
qed

lemma secantAngle_rad_set_idem:
  "fst (secantAngle_rad_set (fst (secantAngle_rad_set cyl v)) v) = fst (secantAngle_rad_set cyl v)"
proof (cases "range_includes (angle_rad (cyl_config cyl)) v")
  case True
  then show ?thesis
    using drawEndSliceIndex_set_idem sliceParameter_set_idem
    by (simp add: secantAngle_rad_set_def Let_def split_beta)
next
  case False
  then show ?thesis by (simp add: secantAngle_rad_set_def)
qed

lemma toroidalAngle_rad_set_idem:
  "fst (toroidalAngle_rad_set (fst (toroidalAngle_rad_set tor v)) v) = fst (toroidalAngle_rad_set tor v)"
proof (cases "range_includes (toroidalAngle_rad (tor_config tor)) v")
  case True
  then show ?thesis
    using drawEndSliceIndex_set_idem sliceParameter_set_idem
    by (simp add: toroidalAngle_rad_set_def Let_def split_beta)
next
  case False
  then show ?thesis by (simp add: toroidalAngle_rad_set_def)
qed

lemma oapAngleCompliment_rad_set_skip:
  "v = stored_oapAngleCompliment_rad c \<or> \<not> range_includes (oapAngleCompliment_rad (cone_config c)) v
   \<Longrightarrow> fst (oapAngleCompliment_rad_set c v) = c"
  by (auto simp add: oapAngleCompliment_rad_set_def)

lemma oapAngleCompliment_rad_set_in_range:
  assumes "range_includes (oapAngleCompliment_rad (cone_config c)) v"
    and "v \<noteq> stored_oapAngleCompliment_rad c"
  shows "cone_surface (fst (oapAngleCompliment_rad_set c v)) =
           fst (drawEndSliceIndex_set (cone_surface c)
                  (real_of_int (lastIncludedStepIdx (oapAngleCompliment_rad (cone_config c)) v)))"
    and "cone_wireframe (fst (oapAngleCompliment_rad_set c v)) =
           fst (drawEndSliceIndex_set (cone_wireframe c)
                  (wireframeEnd (real_of_int (lastIncludedStepIdx (oapAngleCompliment_rad (cone_config c)) v))))"
    and "cone_connectingSliceCoords (fst (oapAngleCompliment_rad_set c v)) =
           sliceParameter_set (cone_connectingSliceCoords c) v"
    and "stored_oapAngleCompliment_rad (fst (oapAngleCompliment_rad_set c v)) = v"
  using assms
  by (simp_all add: oapAngleCompliment_rad_set_def Let_def split_beta wireframeEnd_def
      updatePts_def updateLabelPositions_def)

lemma oapAngleCompliment_rad_set_idem:
  "fst (oapAngleCompliment_rad_set (fst (oapAngleCompliment_rad_set cone v)) v)
     = fst (oapAngleCompliment_rad_set cone v)"
proof (cases "v = stored_oapAngleCompliment_rad cone
              \<or> \<not> range_includes (oapAngleCompliment_rad (cone_config cone)) v")
  case True
  then have "fst (oapAngleCompliment_rad_set cone v) = cone"
    by (rule oapAngleCompliment_rad_set_skip)
  then show ?thesis by simp
next
  case False
  then have "stored_oapAngleCompliment_rad (fst (oapAngleCompliment_rad_set cone v)) = v"
    by (simp add: oapAngleCompliment_rad_set_in_range)
  then show ?thesis
    by (intro oapAngleCompliment_rad_set_skip) simp
qed

text \<open>
  C7.  Setting the stored sweep value again changes nothing.  The cone compares with
  its stored angle and returns at once; the cylinder and the torus store the value in
  the connecting slice, so a second call with the value of the first sets the same draw
  ranges and leaves the buffers and their versions alone.
\<close>

theorem same_sweep_value_is_no_op:
  "oapAngleCompliment_rad_set cone (stored_oapAngleCompliment_rad cone) = (cone, [])
   \<and> fst (oapAngleCompliment_rad_set (fst (oapAngleCompliment_rad_set cone v)) v)
       = fst (oapAngleCompliment_rad_set cone v)
   \<and> fst (secantAngle_rad_set (fst (secantAngle_rad_set cyl v)) v) = fst (secantAngle_rad_set cyl v)
   \<and> fst (toroidalAngle_rad_set (fst (toroidalAngle_rad_set tor v)) v) = fst (toroidalAngle_rad_set tor v)"
  using secantAngle_rad_set_idem toroidalAngle_rad_set_idem oapAngleCompliment_rad_set_idem
  by (simp add: oapAngleCompliment_rad_set_def)

end
